theory Spec2Isabelle
  imports Main "HOL-Library.Sublist"
begin

section \<open>The generic test case minimizer of the Nightmare fuzzing project\<close>

text \<open>
  A shallow embedding of \<^verbatim>\<open>fuzzers/generic_minimizer.py\<close> (Python 2). The
  two classes \<^verbatim>\<open>CGenericMinimizer\<close> (byte-diff mode) and
  \<^verbatim>\<open>CLineMinimizer\<close> (line mode) become functions over an explicit state
  record; everything they ask of the outside (the parsed configuration file, the subject
  program, temporary file names, the marker directory, the random source, the table
  \<^verbatim>\<open>RETURN_SIGNALS\<close> of module \<^verbatim>\<open>nfp_process\<close>) is a field of a
  \<open>world\<close> record, so that a run is a function of its inputs.

  Python 2 byte strings and byte arrays are lists of \<^typ>\<open>char\<close>, which is an
  8-bit byte in HOL.
\<close>

subsection \<open>Exceptions and dynamically typed values\<close>

datatype error =
    Exception string
  | AttributeError
  | ValueError
  | KeyError
  | IndexError
  | ZeroDivisionError
  | IOError

text \<open>
  The attributes \<^verbatim>\<open>self.timeout\<close> and \<^verbatim>\<open>self.mode\<close> hold a string
  or an integer depending on the path taken, and \<^verbatim>\<open>crash_file_exists\<close> compares
  a list with an integer, so these values carry their Python type.
\<close>

datatype pyval = PyNone | PyInt int | PyStr string | PyList "string list"

text \<open>
  CPython 2 orders two objects of different types without raising: \<^verbatim>\<open>None\<close>
  is smaller than everything, numbers are smaller than every other object, and the
  remaining objects are ordered by the name of their type (\<^verbatim>\<open>"list" < "str"\<close>).
  \<open>py2_rank\<close> is that order of the types.
\<close>

fun py2_rank :: "pyval \<Rightarrow> nat" where
  "py2_rank PyNone = 0"
| "py2_rank (PyInt _) = 1"
| "py2_rank (PyList _) = 2"
| "py2_rank (PyStr _) = 3"

fun str_lt :: "string \<Rightarrow> string \<Rightarrow> bool" where
  "str_lt [] [] = False"
| "str_lt [] (d # ds) = True"
| "str_lt (c # cs) [] = False"
| "str_lt (c # cs) (d # ds) = (of_char c < (of_char d :: nat) \<or> (c = d \<and> str_lt cs ds))"

fun strs_lt :: "string list \<Rightarrow> string list \<Rightarrow> bool" where
  "strs_lt [] [] = False"
| "strs_lt [] (y # ys) = True"
| "strs_lt (x # xs) [] = False"
| "strs_lt (x # xs) (y # ys) = (str_lt x y \<or> (x = y \<and> strs_lt xs ys))"

fun py2_gt :: "pyval \<Rightarrow> pyval \<Rightarrow> bool" where
  "py2_gt (PyInt a) (PyInt b) = (b < a)"
| "py2_gt (PyStr a) (PyStr b) = str_lt b a"
| "py2_gt (PyList a) (PyList b) = strs_lt b a"
| "py2_gt a b = (py2_rank b < py2_rank a)"

subsection \<open>String helpers of the Python runtime\<close>

definition lower_char :: "char \<Rightarrow> char" where
  "lower_char c =
     (case map_of (zip ''ABCDEFGHIJKLMNOPQRSTUVWXYZ'' ''abcdefghijklmnopqrstuvwxyz'') c of
        Some d \<Rightarrow> d
      | None \<Rightarrow> c)"

definition lower :: "string \<Rightarrow> string" where
  "lower s = map lower_char s"

text \<open>\<^verbatim>\<open>x.lower()\<close> exists on strings only.\<close>

fun py_lower :: "pyval \<Rightarrow> error + string" where
  "py_lower (PyStr s) = Inr (lower s)"
| "py_lower _ = Inl AttributeError"

definition digit_val :: "char \<Rightarrow> int option" where
  "digit_val c = map_of (zip ''0123456789'' [0, 1, 2, 3, 4, 5, 6, 7, 8, 9]) c"

definition isdigit :: "string \<Rightarrow> bool" where
  "isdigit s = (s \<noteq> [] \<and> list_all (\<lambda>c. digit_val c \<noteq> None) s)"

definition digits_val :: "string \<Rightarrow> int" where
  "digits_val s = foldl (\<lambda>a c. 10 * a + (case digit_val c of Some d \<Rightarrow> d | None \<Rightarrow> 0)) 0 s"

definition is_space :: "char \<Rightarrow> bool" where
  "is_space c = (c \<in> set [CHR '' '', CHR 0x09, CHR 0x0A, CHR 0x0B, CHR 0x0C, CHR 0x0D])"

definition strip :: "string \<Rightarrow> string" where
  "strip s = rev (dropWhile is_space (rev (dropWhile is_space s)))"

text \<open>
  \<^verbatim>\<open>int(s)\<close> on a string: surrounding white space, an optional sign and decimal
  digits; anything else raises \<^verbatim>\<open>ValueError\<close>.
\<close>

definition py_int :: "string \<Rightarrow> error + int" where
  "py_int s =
     (case strip s of
        [] \<Rightarrow> Inl ValueError
      | c # cs \<Rightarrow>
          if c = CHR ''-'' then (if isdigit cs then Inr (- digits_val cs) else Inl ValueError)
          else if c = CHR ''+'' then (if isdigit cs then Inr (digits_val cs) else Inl ValueError)
          else if isdigit (c # cs) then Inr (digits_val (c # cs))
          else Inl ValueError)"

text \<open>
  The pattern \<^verbatim>\<open>try: x = int(parser.get(...)) except: x = d\<close>: any exception,
  a missing option or a value that is no integer, gives the default.
\<close>

definition int_or :: "int \<Rightarrow> string option \<Rightarrow> int" where
  "int_or d v =
     (case v of
        None \<Rightarrow> d
      | Some s \<Rightarrow> (case py_int s of Inl _ \<Rightarrow> d | Inr n \<Rightarrow> n))"

text \<open>\<^verbatim>\<open>ConfigParser.getboolean\<close>: the accepted spellings, in any case.\<close>

definition getboolean :: "string \<Rightarrow> error + bool" where
  "getboolean v =
     (if lower v \<in> set [''1'', ''yes'', ''true'', ''on''] then Inr True
      else if lower v \<in> set [''0'', ''no'', ''false'', ''off''] then Inr False
      else Inl ValueError)"

subsection \<open>The configuration file and the Target Profile\<close>

text \<open>
  The parsed configuration file, as \<^verbatim>\<open>ConfigParser.SafeConfigParser\<close>
  presents it: whether the file exists, the list of its sections, \<^verbatim>\<open>get\<close>
  (\<open>None\<close> where it raises) and \<^verbatim>\<open>items\<close> (\<open>None\<close> where it raises).
\<close>

record config =
  cfg_exists :: bool
  cfg_sections :: "string list"
  cfg_get :: "string \<Rightarrow> string \<Rightarrow> string option"
  cfg_items :: "string \<Rightarrow> (string \<times> string) list option"

datatype iface = vtrace_iface | gdb_iface | pykd_iface

record profile =
  pre_command :: "string option"
  pre_iterations :: int
  post_command :: "string option"
  post_iterations :: int
  command :: string
  extension :: string
  timeout :: pyval
  env :: "string \<rightharpoonup> string"
  cleanup :: "string option"
  signal :: "int option"
  mode :: pyval
  windbg_path :: "string option"
  exploitable_path :: "string option"
  iface :: iface
  debugging_interface :: "string option"

text \<open>
  The timeout: the option's string, or the integer 90 when the option is missing; then
  \<^verbatim>\<open>self.timeout.lower()\<close> is called on whichever it is.
\<close>

definition read_timeout :: "string option \<Rightarrow> error + pyval" where
  "read_timeout v =
     (let t = (case v of Some s \<Rightarrow> PyStr s | None \<Rightarrow> PyInt 90) in
      case py_lower t of
        Inl e \<Rightarrow> Inl e
      | Inr l \<Rightarrow>
          if l \<noteq> ''auto'' then
            (case t of
               PyStr s \<Rightarrow> (case py_int s of Inl e \<Rightarrow> Inl e | Inr n \<Rightarrow> Inr (PyInt n))
             | _ \<Rightarrow> Inr t)
          else Inr t)"

definition read_env :: "config \<Rightarrow> string \<Rightarrow> string \<rightharpoonup> string" where
  "read_env cfg section =
     (case cfg_get cfg section ''environment'' of
        None \<Rightarrow> Map.empty
      | Some environment \<Rightarrow>
          (case cfg_items cfg environment of
             None \<Rightarrow> Map.empty
           | Some kvs \<Rightarrow> map_of (rev kvs)))"

definition read_signal :: "string option \<Rightarrow> int option" where
  "read_signal v =
     (case v of
        None \<Rightarrow> None
      | Some s \<Rightarrow> (case py_int s of Inl _ \<Rightarrow> None | Inr n \<Rightarrow> Some n))"

definition read_mode :: "string option \<Rightarrow> pyval" where
  "read_mode v =
     (case v of
        None \<Rightarrow> PyInt 32
      | Some s \<Rightarrow> if isdigit s then PyInt (digits_val s) else PyStr s)"

text \<open>
  The interface chosen from \<^verbatim>\<open>use-gdb\<close> is overwritten by the block on
  \<^verbatim>\<open>debugging-interface\<close>. When module \<^verbatim>\<open>pykd_iface\<close> could not be
  imported, naming it raises, and the handler resets both attributes.
\<close>

definition read_use_gdb :: "string option \<Rightarrow> iface" where
  "read_use_gdb v =
     (case v of
        None \<Rightarrow> vtrace_iface
      | Some s \<Rightarrow>
          (case getboolean s of
             Inl _ \<Rightarrow> vtrace_iface
           | Inr b \<Rightarrow> if b then gdb_iface else vtrace_iface))"

definition read_debugging_interface :: "bool \<Rightarrow> string option \<Rightarrow> string option \<times> iface" where
  "read_debugging_interface has_pykd v =
     (case v of
        None \<Rightarrow> (None, vtrace_iface)
      | Some d \<Rightarrow>
          if d = ''pykd'' then (if has_pykd then (Some d, pykd_iface) else (None, vtrace_iface))
          else if d = ''gdb'' then (Some d, gdb_iface)
          else (Some d, vtrace_iface))"

definition read_configuration :: "bool \<Rightarrow> config \<Rightarrow> string \<Rightarrow> error + profile" where
  "read_configuration has_pykd cfg section =
     (if \<not> cfg_exists cfg then Inl (Exception ''Invalid configuration file given'')
      else if section \<notin> set (cfg_sections cfg) then
        Inl (Exception (''Section '' @ section @ '' does not exists in the given configuration file''))
      else
        case cfg_get cfg section ''command'' of
          None \<Rightarrow>
            Inl (Exception (''No command specified in the configuration file for section '' @ section))
        | Some cmd \<Rightarrow>
            (case cfg_get cfg section ''extension'' of
               None \<Rightarrow>
                 Inl (Exception
                   (''No extension specified in the configuration file for section '' @ section))
             | Some ext \<Rightarrow>
                 (case read_timeout (cfg_get cfg section ''minimize-timeout'') of
                    Inl e \<Rightarrow> Inl e
                  | Inr t \<Rightarrow>
                      Inr \<lparr>pre_command = cfg_get cfg section ''pre-command'',
                           pre_iterations = int_or 1 (cfg_get cfg section ''pre-iterations''),
                           post_command = cfg_get cfg section ''post-command'',
                           post_iterations = int_or 1 (cfg_get cfg section ''post-iterations''),
                           command = cmd,
                           extension = ext,
                           timeout = t,
                           env = read_env cfg section,
                           cleanup = cfg_get cfg section ''cleanup-command'',
                           signal = read_signal (cfg_get cfg section ''signal''),
                           mode = read_mode (cfg_get cfg section ''mode''),
                           windbg_path = cfg_get cfg section ''windbg-path'',
                           exploitable_path = cfg_get cfg section ''exploitable-path'',
                           iface = snd (read_debugging_interface has_pykd
                                      (cfg_get cfg section ''debugging-interface'')),
                           debugging_interface = fst (read_debugging_interface has_pykd
                                      (cfg_get cfg section ''debugging-interface''))\<rparr>)))"

text \<open>
  A configuration file whose only section holds the two required options and nothing
  else.
\<close>

definition minimal_cfg :: config where
  "minimal_cfg =
     \<lparr>cfg_exists = True,
      cfg_sections = [''target''],
      cfg_get = (\<lambda>s. if s = ''target''
                      then [''command'' \<mapsto> ''/usr/bin/target'', ''extension'' \<mapsto> ''.bin'']
                      else Map.empty),
      cfg_items = (\<lambda>_. None)\<rparr>"

text \<open>
  \<^verbatim>\<open>CLineMinimizer.read_configuration\<close> runs the base class's reader and adds
  five attributes. \<^verbatim>\<open>bool(s)\<close> of a string is true unless the string is empty;
  \<^verbatim>\<open>infinite_loop\<close> is read from the option \<^verbatim>\<open>crash-path\<close> too, and is
  \<^verbatim>\<open>False\<close> (here \<open>None\<close>) without it.
\<close>

record line_profile = profile +
  line_per_line :: bool
  lines_to_rip :: int
  lines_percent :: int
  crash_path :: "string option"
  infinite_loop :: "string option"

definition read_line_per_line :: "string option \<Rightarrow> bool" where
  "read_line_per_line v = (case v of None \<Rightarrow> False | Some s \<Rightarrow> s \<noteq> [])"

definition read_configuration_line :: "bool \<Rightarrow> config \<Rightarrow> string \<Rightarrow> error + line_profile" where
  "read_configuration_line has_pykd cfg section =
     (case read_configuration has_pykd cfg section of
        Inl e \<Rightarrow> Inl e
      | Inr p \<Rightarrow>
          Inr (profile.extend p
            (line_profile.fields
               (read_line_per_line (cfg_get cfg section ''line-per-line''))
               (int_or 1 (cfg_get cfg section ''lines-to-rip''))
               (int_or 10 (cfg_get cfg section ''lines-percent''))
               (cfg_get cfg section ''crash-path'')
               (cfg_get cfg section ''crash-path''))))"

subsection \<open>The world outside the minimizer\<close>

text \<open>
  What a run reads from its surroundings, as functions of the trial's iteration index:
  \<^item> \<open>RETURN_SIGNALS\<close>: the table of module \<^verbatim>\<open>nfp_process\<close> (not part of this
    file), exit code to signal name;
  \<^item> \<open>has_pykd\<close>: whether \<^verbatim>\<open>pykd_iface\<close> could be imported;
  \<^item> \<open>run_timeout\<close>: \<^verbatim>\<open>TimeoutCommand(cmd).run(timeout)\<close>, the subject's exit
    code (or \<^verbatim>\<open>None\<close>) for a command line and the content of the candidate file;
  \<^item> \<open>iface_main\<close>: whether the debugger interface's \<^verbatim>\<open>main\<close> reports a crash;
  \<^item> \<open>mktemp\<close>: \<^verbatim>\<open>tempfile.mktemp(suffix)\<close>;
  \<^item> \<open>listdir\<close>: \<^verbatim>\<open>os.listdir\<close> of the marker directory after the subject ran;
  \<^item> \<open>sha1_hexdigest\<close>: \<^verbatim>\<open>sha1(buf).hexdigest()\<close>;
  \<^item> \<open>randbits\<close>: the random source behind \<^verbatim>\<open>random.randint\<close>;
  \<^item> \<open>cfg_at\<close>: the configuration file as it reads at a trial (the line minimizer
    reads it again at every trial).
  File-system calls are taken to succeed, except writing into an output directory that
  does not exist, which the state tracks.
\<close>

record world =
  RETURN_SIGNALS :: "int \<rightharpoonup> string"
  has_pykd :: bool
  run_timeout :: "nat \<Rightarrow> string \<Rightarrow> string \<Rightarrow> int option"
  iface_main :: "iface \<Rightarrow> nat \<Rightarrow> string \<Rightarrow> string \<Rightarrow> bool"
  mktemp :: "nat \<Rightarrow> string \<Rightarrow> string"
  listdir :: "nat \<Rightarrow> string \<Rightarrow> string list"
  sha1_hexdigest :: "string \<Rightarrow> string"
  randbits :: "nat \<Rightarrow> nat"
  cfg_at :: "nat \<Rightarrow> config"

text \<open>
  \<^verbatim>\<open>random.randint(a, b)\<close>: an integer of \<open>[a, b]\<close>, \<^verbatim>\<open>ValueError\<close> on an
  empty range.
\<close>

definition randint :: "world \<Rightarrow> nat \<Rightarrow> int \<Rightarrow> int \<Rightarrow> error + int" where
  "randint w it a b =
     (if b < a then Inl ValueError
      else Inr (a + int (randbits w it mod nat (b - a + 1))))"

subsection \<open>The state of a minimizer\<close>

text \<open>
  The attributes of the object (\<open>prof\<close>: those set by \<^verbatim>\<open>read_configuration\<close>;
  \<open>diff\<close>, \<open>template\<close>, \<open>crash\<close>, \<open>minimized\<close>), the local variables of
  \<^verbatim>\<open>do_try\<close> (\<open>iteration\<close>, \<open>current_line\<close>, \<open>loops\<close>), and what the run
  has done to the outside: whether the output directory exists, the subject runs
  (iteration index, command line, content of the candidate file), the files written into
  the output directory (name, content) and the shell hooks run, each oldest first.
  The template is a byte array (\<open>'a = char\<close>) in byte-diff mode and a list of lines
  (\<open>'a = string\<close>) in line mode.
\<close>

record ('a, 'p) minimizer =
  prof :: 'p
  diff :: "nat list"
  template :: "'a list"
  crash :: "nat \<rightharpoonup> 'a"
  minimized :: bool
  iteration :: nat
  current_line :: nat
  loops :: nat
  outdir_exists :: bool
  executed :: "(nat \<times> string \<times> string) list"
  written :: "(string \<times> string) list"
  hooks :: "string list"

text \<open>
  How a piece of a loop ends: \<open>Next\<close> goes on with the loop, \<open>Break\<close> leaves it,
  \<open>Raise\<close> is an exception that nothing catches, with the state it leaves behind.
\<close>

datatype 's flow = Next 's | Break 's | Raise error 's

fun flow_state :: "'s flow \<Rightarrow> 's" where
  "flow_state (Next s) = s"
| "flow_state (Break s) = s"
| "flow_state (Raise e s) = s"

definition init :: "'p \<Rightarrow> bool \<Rightarrow> ('a, 'p) minimizer" where
  "init p outdir_there =
     \<lparr>prof = p, diff = [], template = [], crash = Map.empty, minimized = False,
      iteration = 0, current_line = 0, loops = 0, outdir_exists = outdir_there,
      executed = [], written = [], hooks = []\<rparr>"

subsection \<open>Running the subject and judging the run\<close>

text \<open>\<^verbatim>\<open>os.path.join\<close> of two components.\<close>

definition path_join :: "string \<Rightarrow> string \<Rightarrow> string" where
  "path_join a b =
     (if b \<noteq> [] \<and> hd b = CHR ''/'' then b
      else if a = [] \<or> last a = CHR ''/'' then a @ b
      else a @ ''/'' @ b)"

definition execute_command ::
  "world \<Rightarrow> 'x profile_scheme \<Rightarrow> nat \<Rightarrow> string \<Rightarrow> string \<Rightarrow> int option" where
  "execute_command w p it cmd content =
     (case debugging_interface p of
        None \<Rightarrow> run_timeout w it cmd content
      | Some d \<Rightarrow> if iface_main w (iface p) it cmd content then Some 0xC0000005 else None)"

definition in_return_signals :: "world \<Rightarrow> int option \<Rightarrow> bool" where
  "in_return_signals w ret = (case ret of None \<Rightarrow> False | Some r \<Rightarrow> r \<in> dom (RETURN_SIGNALS w))"

definition is_signal :: "'x profile_scheme \<Rightarrow> int option \<Rightarrow> bool" where
  "is_signal p ret = (signal p \<noteq> None \<and> ret = signal p)"

text \<open>
  \<^verbatim>\<open>CLineMinimizer.crash_file_exists\<close> returns \<^verbatim>\<open>os.listdir(path) > 0\<close>: a
  list compared with an integer.
\<close>

definition crash_file_exists :: "world \<Rightarrow> line_profile \<Rightarrow> nat \<Rightarrow> bool" where
  "crash_file_exists w p it =
     (case crash_path p of
        Some d \<Rightarrow> py2_gt (PyList (listdir w it d)) (PyInt 0)
      | None \<Rightarrow> False)"

text \<open>The condition of line 483, in \<^verbatim>\<open>CLineMinimizer.do_try\<close>.\<close>

definition lm_crashed :: "world \<Rightarrow> line_profile \<Rightarrow> nat \<Rightarrow> int option \<Rightarrow> bool" where
  "lm_crashed w p it ret =
     (in_return_signals w ret \<or> is_signal p ret \<or> crash_file_exists w p it)"

text \<open>
  The same condition at line 310, in \<^verbatim>\<open>CGenericMinimizer.do_try\<close>. The class
  \<^verbatim>\<open>CGenericMinimizer\<close> has no method \<^verbatim>\<open>crash_file_exists\<close>, so reaching
  the third disjunct raises \<^verbatim>\<open>AttributeError\<close>. When the condition holds, the log
  line evaluates \<^verbatim>\<open>RETURN_SIGNALS[ret]\<close> before anything is written.
\<close>

definition gm_crashed :: "world \<Rightarrow> profile \<Rightarrow> int option \<Rightarrow> error + bool" where
  "gm_crashed w p ret =
     (if in_return_signals w ret then Inr True
      else if is_signal p ret then Inr True
      else Inl AttributeError)"

definition gm_log_caught :: "world \<Rightarrow> int option \<Rightarrow> error + string" where
  "gm_log_caught w ret =
     (case ret of
        None \<Rightarrow> Inl KeyError
      | Some r \<Rightarrow> (case RETURN_SIGNALS w r of None \<Rightarrow> Inl KeyError | Some name \<Rightarrow> Inr name))"

text \<open>
  The verdict of one executed trial of the byte-diff minimizer: the condition, then the
  log line of the success branch.
\<close>

definition gm_verdict :: "world \<Rightarrow> profile \<Rightarrow> int option \<Rightarrow> error + bool" where
  "gm_verdict w p ret =
     (case gm_crashed w p ret of
        Inl e \<Rightarrow> Inl e
      | Inr c \<Rightarrow>
          if c then (case gm_log_caught w ret of Inl e \<Rightarrow> Inl e | Inr name \<Rightarrow> Inr True)
          else Inr False)"

subsection \<open>The command line\<close>

text \<open>\<^verbatim>\<open>s.find(sub)\<close>: the first index where \<open>sub\<close> starts, or \<open>-1\<close>.\<close>

fun find_from :: "nat \<Rightarrow> string \<Rightarrow> string \<Rightarrow> int" where
  "find_from i [] sub = (if sub = [] then int i else - 1)"
| "find_from i (c # cs) sub = (if prefix sub (c # cs) then int i else find_from (Suc i) cs sub)"

definition find :: "string \<Rightarrow> string \<Rightarrow> int" where
  "find s sub = find_from 0 s sub"

text \<open>
  \<^verbatim>\<open>s.replace("@@", new)\<close>: every occurrence of the two-character placeholder, left
  to right, without overlaps.
\<close>

fun replace_placeholder :: "string \<Rightarrow> string \<Rightarrow> string" where
  "replace_placeholder (a # b # cs) new =
     (if a = CHR ''@'' \<and> b = CHR ''@'' then new @ replace_placeholder cs new
      else a # replace_placeholder (b # cs) new)"
| "replace_placeholder cs new = cs"

text \<open>Line 303: the byte-diff minimizer always appends the path.\<close>

definition gm_command :: "'x profile_scheme \<Rightarrow> string \<Rightarrow> string" where
  "gm_command p temp_file = command p @ '' '' @ temp_file"

text \<open>Lines 472 to 475: the line minimizer looks for the placeholder first.\<close>

definition lm_command :: "'x profile_scheme \<Rightarrow> string \<Rightarrow> string" where
  "lm_command p temp_file =
     (if find (command p) ''@@'' = - 1 then command p @ '' '' @ temp_file
      else replace_placeholder (command p) temp_file)"

subsection \<open>The byte-diff minimizer: \<^verbatim>\<open>CGenericMinimizer\<close>\<close>

definition CGenericMinimizer ::
  "world \<Rightarrow> config \<Rightarrow> string \<Rightarrow> bool \<Rightarrow> error + (char, profile) minimizer" where
  "CGenericMinimizer w cfg section outdir_there =
     (case read_configuration (has_pykd w) cfg section of
        Inl e \<Rightarrow> Inl e
      | Inr p \<Rightarrow> Inr (init p outdir_there))"

definition strip_chr :: "char \<Rightarrow> string \<Rightarrow> string" where
  "strip_chr c s = rev (dropWhile (\<lambda>x. x = c) (rev (dropWhile (\<lambda>x. x = c) s)))"

text \<open>
  \<^verbatim>\<open>read_diff\<close>, over the lines of the diff file: comment lines are skipped, line
  ends stripped, and a line of digits appends its offset to \<^verbatim>\<open>self.diff\<close>.
\<close>

fun read_diff :: "string list \<Rightarrow> nat list \<Rightarrow> nat list" where
  "read_diff [] d = d"
| "read_diff (line # ls) d =
     (if prefix ''#'' line then read_diff ls d
      else
        let l = strip_chr (CHR 0x0D) (strip_chr (CHR 0x0A) line) in
        if isdigit l then read_diff ls (d @ [nat (digits_val l)]) else read_diff ls d)"

text \<open>
  \<^verbatim>\<open>read_crash\<close>: the byte of the crashing file at every offset of the diff; an
  offset past its end raises \<^verbatim>\<open>IndexError\<close>.
\<close>

fun read_crash :: "string \<Rightarrow> nat list \<Rightarrow> (nat \<rightharpoonup> char) \<Rightarrow> error + (nat \<rightharpoonup> char)" where
  "read_crash tmp [] m = Inr m"
| "read_crash tmp (pos # ps) m =
     (if pos < length tmp then read_crash tmp ps (m(pos \<mapsto> tmp ! pos)) else Inl IndexError)"

text \<open>The starting iteration, from the environment variable \<^verbatim>\<open>NIGHTMARE_ITERATION\<close>.\<close>

definition read_start_at :: "string option \<Rightarrow> error + int" where
  "read_start_at v = (case v of None \<Rightarrow> Inr 0 | Some s \<Rightarrow> py_int s)"

definition hook :: "string option \<Rightarrow> string list" where
  "hook c = (case c of None \<Rightarrow> [] | Some x \<Rightarrow> [x])"

text \<open>
  One turn of the inner loop of \<^verbatim>\<open>CGenericMinimizer.do_try\<close> (lines 283 to 325),
  for the offset \<open>pos\<close>. The \<^verbatim>\<open>continue\<close> of line 288 skips the increment of the
  iteration counter; the assignment of line 290 raises when the offset is past the end of
  the template.
\<close>

definition gm_trial ::
  "world \<Rightarrow> string \<Rightarrow> int \<Rightarrow> nat \<Rightarrow> (char, profile) minimizer \<Rightarrow> (char, profile) minimizer flow" where
  "gm_trial w outdir start_at pos s =
     (if start_at \<le> int (iteration s) then
        (case crash s pos of
           None \<Rightarrow> Next s
         | Some b \<Rightarrow>
             if length (template s) \<le> pos then Raise IndexError s
             else
               let p = prof s;
                   it = iteration s;
                   temp_file = mktemp w it '''';
                   buf = (template s)[pos := b];
                   cmd = gm_command p temp_file;
                   ret = execute_command w p it cmd buf;
                   s1 = s\<lparr>executed := executed s @ [(it, cmd, buf)],
                          hooks := hooks s @ hook (pre_command p) @ hook (post_command p)\<rparr>
               in case gm_verdict w p ret of
                    Inl e \<Rightarrow> Raise e s1
                  | Inr c \<Rightarrow>
                      if c then
                        (if outdir_exists s1 then
                           Break (s1\<lparr>written := written s1 @
                                      [(path_join outdir (sha1_hexdigest w buf @ extension p), buf)],
                                    minimized := True\<rparr>)
                         else Raise IOError s1)
                      else Next (s1\<lparr>iteration := Suc it\<rparr>))
      else Next (s\<lparr>iteration := Suc (iteration s)\<rparr>))"

text \<open>The inner loop \<^verbatim>\<open>for pos in self.diff\<close>.\<close>

fun gm_pass ::
  "world \<Rightarrow> string \<Rightarrow> int \<Rightarrow> nat list \<Rightarrow> (char, profile) minimizer \<Rightarrow> (char, profile) minimizer flow" where
  "gm_pass w outdir start_at [] s = Next s"
| "gm_pass w outdir start_at (pos # ps) s =
     (case gm_trial w outdir start_at pos s of
        Next s' \<Rightarrow> gm_pass w outdir start_at ps s'
      | Break s' \<Rightarrow> Break s'
      | Raise e s' \<Rightarrow> Raise e s')"

text \<open>
  Lines 330 to 333: the last offset is popped from the diff and, when the crash map holds
  it, its byte is written into the template and the entry deleted.
\<close>

definition gm_pop :: "(char, profile) minimizer \<Rightarrow> (char, profile) minimizer flow" where
  "gm_pop s =
     (if diff s = [] then Raise IndexError s
      else
        let v = last (diff s);
            s1 = s\<lparr>diff := butlast (diff s)\<rparr>
        in case crash s1 v of
             None \<Rightarrow> Next s1
           | Some b \<Rightarrow>
               if length (template s1) \<le> v then Raise IndexError s1
               else Next (s1\<lparr>template := (template s1)[v := b], crash := (crash s1)(v := None)\<rparr>))"

text \<open>One round of the outer loop: the inner pass, then the pop.\<close>

definition gm_round ::
  "world \<Rightarrow> string \<Rightarrow> int \<Rightarrow> (char, profile) minimizer \<Rightarrow> (char, profile) minimizer flow" where
  "gm_round w outdir start_at s =
     (case gm_pass w outdir start_at (diff s) s of
        Next s1 \<Rightarrow> gm_pop s1
      | Break s1 \<Rightarrow> Break s1
      | Raise e s1 \<Rightarrow> Raise e s1)"

text \<open>
  The outer loop \<^verbatim>\<open>for i in range(len(self.diff))\<close>: the number of rounds is fixed
  when the loop starts.
\<close>

fun gm_rounds ::
  "world \<Rightarrow> string \<Rightarrow> int \<Rightarrow> nat \<Rightarrow> (char, profile) minimizer \<Rightarrow> (char, profile) minimizer flow" where
  "gm_rounds w outdir start_at 0 s = Next s"
| "gm_rounds w outdir start_at (Suc n) s =
     (case gm_round w outdir start_at s of
        Next s1 \<Rightarrow> gm_rounds w outdir start_at n s1
      | Break s1 \<Rightarrow> Break s1
      | Raise e s1 \<Rightarrow> Raise e s1)"

text \<open>
  \<^verbatim>\<open>CGenericMinimizer.do_try\<close>. \<open>Break\<close>: a candidate crashed and was written
  (\<^verbatim>\<open>minimized\<close>); \<open>Next\<close>: the rounds ran out (``Sorry, could not minimize
  crashing file!'').
\<close>

definition gm_do_try ::
  "world \<Rightarrow> string \<Rightarrow> int \<Rightarrow> (char, profile) minimizer \<Rightarrow> (char, profile) minimizer flow" where
  "gm_do_try w outdir start_at s =
     gm_rounds w outdir start_at (length (diff s)) (s\<lparr>minimized := False, iteration := 0\<rparr>)"

definition gm_minimize ::
  "world \<Rightarrow> string list \<Rightarrow> string \<Rightarrow> string \<Rightarrow> string \<Rightarrow> string option \<Rightarrow>
   (char, profile) minimizer \<Rightarrow> (char, profile) minimizer flow" where
  "gm_minimize w diff_lines template_bytes crash_bytes outdir nightmare_iteration s =
     (let s1 = s\<lparr>diff := read_diff diff_lines (diff s)\<rparr>;
          s2 = s1\<lparr>template := template_bytes\<rparr>
      in case read_crash crash_bytes (diff s2) Map.empty of
           Inl e \<Rightarrow> Raise e s2
         | Inr m \<Rightarrow>
             (case read_start_at nightmare_iteration of
                Inl e \<Rightarrow> Raise e (s2\<lparr>crash := m\<rparr>)
              | Inr start_at \<Rightarrow> gm_do_try w outdir start_at (s2\<lparr>crash := m\<rparr>)))"

subsection \<open>The line minimizer: \<^verbatim>\<open>CLineMinimizer\<close>\<close>

definition CLineMinimizer ::
  "world \<Rightarrow> config \<Rightarrow> string \<Rightarrow> bool \<Rightarrow> error + (string, line_profile) minimizer" where
  "CLineMinimizer w cfg section outdir_there =
     (case read_configuration_line (has_pykd w) cfg section of
        Inl e \<Rightarrow> Inl e
      | Inr p \<Rightarrow> Inr (init p outdir_there))"

text \<open>\<^verbatim>\<open>read_template\<close>, over the result of \<^verbatim>\<open>readlines()\<close>: empty lines go.\<close>

definition read_template :: "string list \<Rightarrow> string list" where
  "read_template l = filter (\<lambda>line. line \<notin> set [[CHR 0x0A], [CHR 0x0D, CHR 0x0A]]) l"

text \<open>
  The slice \<^verbatim>\<open>xs[j:]\<close>: a negative start counts from the end, and is clipped at the
  start of the list.
\<close>

definition py_slice_from :: "'a list \<Rightarrow> int \<Rightarrow> 'a list" where
  "py_slice_from xs j =
     (if j < 0 then drop (nat (int (length xs) + j)) xs else drop (nat j) xs)"

text \<open>
  Lines 439 to 453: how many lines to remove. Python 2's \<^verbatim>\<open>/\<close> on integers is the
  floor division, as \<open>div\<close> on \<^typ>\<open>int\<close> is.
\<close>

definition rip_count :: "world \<Rightarrow> line_profile \<Rightarrow> nat \<Rightarrow> nat \<Rightarrow> nat \<Rightarrow> nat \<Rightarrow> error + int" where
  "rip_count w p it lps total_lines cur =
     (if lps = 0 \<and> \<not> line_per_line p then
        let val = ((int total_lines - int cur) * lines_percent p) div 100;
            val' = (if val = 0 then 1 else val)
        in randint w it 1 val'
      else Inr (lines_to_rip p))"

text \<open>
  \<^verbatim>\<open>if i % n == 0: if c is not None: os.system(c)\<close>: the hook run, if any; the
  modulus raises when the interval is zero.
\<close>

definition hook_gate :: "int \<Rightarrow> int \<Rightarrow> string option \<Rightarrow> error + string list" where
  "hook_gate i n c =
     (if n = 0 then Inl ZeroDivisionError
      else Inr (if i mod n = 0 then hook c else []))"

text \<open>
  One turn of the inner loop of \<^verbatim>\<open>CLineMinimizer.do_try\<close> (lines 430 to 501), with
  \<open>i\<close> the loop variable and \<open>total_lines\<close> the length of the buffer when the outer
  loop started.
\<close>

definition lm_trial ::
  "world \<Rightarrow> string \<Rightarrow> string \<Rightarrow> nat \<Rightarrow> nat \<Rightarrow>
   (string, line_profile) minimizer \<Rightarrow> (string, line_profile) minimizer flow" where
  "lm_trial w section outdir total_lines i s =
     (case read_configuration_line (has_pykd w) (cfg_at w (iteration s)) section of
        Inl e \<Rightarrow> Raise e s
      | Inr p \<Rightarrow>
          let it = iteration s;
              s1 = s\<lparr>prof := p, iteration := Suc it\<rparr>;
              temp_file = mktemp w it (extension p);
              lines = template s1
          in if length lines \<le> current_line s1 then Break s1
             else
               case rip_count w p it (loops s1) total_lines (current_line s1) of
                 Inl e \<Rightarrow> Raise e s1
               | Inr k \<Rightarrow>
                   let lines' = take (current_line s1) lines @
                                  py_slice_from lines (int (current_line s1) + k);
                       buf = concat lines'
                   in case hook_gate (int i) (pre_iterations p) (pre_command p) of
                        Inl e \<Rightarrow> Raise e s1
                      | Inr pre \<Rightarrow>
                          let cmd = lm_command p temp_file;
                              ret = execute_command w p it cmd buf;
                              s2 = s1\<lparr>executed := executed s1 @ [(it, cmd, buf)],
                                     hooks := hooks s1 @ pre\<rparr>
                          in case hook_gate (int i) (post_iterations p) (post_command p) of
                               Inl e \<Rightarrow> Raise e s2
                             | Inr post \<Rightarrow>
                                 if lm_crashed w p it ret then
                                   Next (s2\<lparr>template := lines',
                                            outdir_exists := True,
                                            written := written s2 @
                                              [(path_join outdir (''last_minimized'' @ extension p),
                                                concat lines')],
                                            hooks := hooks s2 @ post\<rparr>)
                                 else
                                   Next (s2\<lparr>current_line := Suc (current_line s2),
                                            hooks := hooks s2 @ post\<rparr>))"

text \<open>The inner loop \<^verbatim>\<open>for i in range(len(self.template))\<close>.\<close>

fun lm_pass ::
  "world \<Rightarrow> string \<Rightarrow> string \<Rightarrow> nat \<Rightarrow> nat list \<Rightarrow>
   (string, line_profile) minimizer \<Rightarrow> (string, line_profile) minimizer flow" where
  "lm_pass w section outdir total_lines [] s = Next s"
| "lm_pass w section outdir total_lines (i # is) s =
     (case lm_trial w section outdir total_lines i s of
        Next s' \<Rightarrow> lm_pass w section outdir total_lines is s'
      | Break s' \<Rightarrow> Break s'
      | Raise e s' \<Rightarrow> Raise e s')"

text \<open>Lines 505 to 514: the buffer is written under its hash and the run ends.\<close>

definition lm_finish ::
  "world \<Rightarrow> string \<Rightarrow> (string, line_profile) minimizer \<Rightarrow> (string, line_profile) minimizer flow" where
  "lm_finish w outdir s =
     (if outdir_exists s then
        Break (s\<lparr>written := written s @
                   [(path_join outdir
                       (sha1_hexdigest w (concat (template s)) @ extension (prof s)),
                     concat (template s))],
                 minimized := True\<rparr>)
      else Raise IOError s)"

text \<open>
  The outer loop \<^verbatim>\<open>while 1\<close>. Nothing in the code bounds it, so the model runs it on
  fuel: \<open>Next\<close> is a loop that has not ended when the fuel is used up, \<open>Break\<close> the
  \<^verbatim>\<open>break\<close> of line 514, with \<open>loops\<close> the number of outer loops run.
\<close>

fun lm_loop ::
  "nat \<Rightarrow> world \<Rightarrow> string \<Rightarrow> string \<Rightarrow>
   (string, line_profile) minimizer \<Rightarrow> (string, line_profile) minimizer flow" where
  "lm_loop 0 w section outdir s = Next s"
| "lm_loop (Suc fuel) w section outdir s =
     (let s0 = s\<lparr>minimized := False, current_line := 0\<rparr>;
          total_lines = length (template s0)
      in case lm_pass w section outdir total_lines [0..<total_lines] s0 of
           Raise e s1 \<Rightarrow> Raise e s1
         | r \<Rightarrow>
             let s1 = (flow_state r)\<lparr>loops := Suc (loops (flow_state r))\<rparr> in
             if length (template s1) = total_lines then lm_finish w outdir s1
             else lm_loop fuel w section outdir s1)"

text \<open>
  \<^verbatim>\<open>CLineMinimizer.do_try\<close>: the parameter \<^verbatim>\<open>start_at\<close> is accepted and never
  read.
\<close>

definition lm_do_try ::
  "nat \<Rightarrow> world \<Rightarrow> string \<Rightarrow> string \<Rightarrow> int \<Rightarrow>
   (string, line_profile) minimizer \<Rightarrow> (string, line_profile) minimizer flow" where
  "lm_do_try fuel w section outdir start_at s =
     lm_loop fuel w section outdir (s\<lparr>current_line := 0, iteration := 0, loops := 0\<rparr>)"

definition lm_minimize ::
  "nat \<Rightarrow> world \<Rightarrow> string \<Rightarrow> string list \<Rightarrow> string \<Rightarrow> string option \<Rightarrow>
   (string, line_profile) minimizer \<Rightarrow> (string, line_profile) minimizer flow" where
  "lm_minimize fuel w section template_lines outdir nightmare_iteration s =
     (let s1 = s\<lparr>template := read_template template_lines\<rparr> in
      case read_start_at nightmare_iteration of
        Inl e \<Rightarrow> Raise e s1
      | Inr start_at \<Rightarrow> lm_do_try fuel w section outdir start_at s1)"

subsection \<open>Sample inputs\<close>

text \<open>
  Concrete inputs on which the definitions are evaluated: a signal table with two
  entries, a configuration file with one section \<^verbatim>\<open>target\<close> holding the required
  options, a timeout and further options, and a world with no debugger interface whose
  subject's exit code depends on the content of the candidate file only.
\<close>

definition sample_signals :: "int \<rightharpoonup> string" where
  "sample_signals = [134 \<mapsto> ''SIGABRT'', 139 \<mapsto> ''SIGSEGV'']"

definition target_cfg :: "(string \<times> string) list \<Rightarrow> config" where
  "target_cfg options =
     \<lparr>cfg_exists = True,
      cfg_sections = [''target''],
      cfg_get = (\<lambda>s. if s = ''target''
                      then map_of ([(''command'', ''/usr/bin/target''), (''extension'', ''.txt''),
                                    (''minimize-timeout'', ''30'')] @ options)
                      else Map.empty),
      cfg_items = (\<lambda>s. None)\<rparr>"

definition exit_world :: "(string \<Rightarrow> int option) \<Rightarrow> config \<Rightarrow> world" where
  "exit_world subject cfg =
     \<lparr>RETURN_SIGNALS = sample_signals,
      has_pykd = False,
      run_timeout = (\<lambda>it cmd content. subject content),
      iface_main = (\<lambda>ifc it cmd content. False),
      mktemp = (\<lambda>it suffix. ''/tmp/tmpfile'' @ suffix),
      listdir = (\<lambda>it d. []),
      sha1_hexdigest = (\<lambda>buf. ''sha1''),
      randbits = (\<lambda>it. 0),
      cfg_at = (\<lambda>it. cfg)\<rparr>"

definition target_profile :: profile where
  "target_profile =
     \<lparr>pre_command = None, pre_iterations = 1, post_command = None, post_iterations = 1,
      command = ''/usr/bin/target'', extension = ''.txt'', timeout = PyInt 30,
      env = Map.empty, cleanup = None, signal = None, mode = PyInt 32, windbg_path = None,
      exploitable_path = None, iface = vtrace_iface, debugging_interface = None\<rparr>"

definition target_line_profile :: line_profile where
  "target_line_profile =
     profile.extend target_profile (line_profile.fields False 1 10 None None)"

subsection \<open>Predicates of the properties\<close>

text \<open>
  A buffer differs from the original \<open>t0\<close> only at offsets of \<open>D\<close>: it has the same
  length and the same byte at every other offset.
\<close>

definition differs_only_at :: "nat set \<Rightarrow> 'a list \<Rightarrow> 'a list \<Rightarrow> bool" where
  "differs_only_at D t0 buf =
     (length buf = length t0 \<and> (\<forall>i < length t0. i \<notin> D \<longrightarrow> buf ! i = t0 ! i))"

text \<open>
  The frame invariant of a byte-diff run: the offsets still in the diff come from \<open>D\<close>,
  and the template, every candidate handed to the subject and every file written differ
  from \<open>t0\<close> only at offsets of \<open>D\<close>.
\<close>

definition gm_frame :: "nat set \<Rightarrow> string \<Rightarrow> (char, profile) minimizer \<Rightarrow> bool" where
  "gm_frame D t0 s =
     (set (diff s) \<subseteq> D \<and> differs_only_at D t0 (template s) \<and>
      (\<forall>e \<in> set (executed s). differs_only_at D t0 (snd (snd e))) \<and>
      (\<forall>f \<in> set (written s). differs_only_at D t0 (snd f)))"

text \<open>
  The shrinking invariant of a line run: the Line Buffer is a sub-sequence of the lines
  \<open>t0\<close> the run started from, and every file written is the concatenation of such a
  sub-sequence.
\<close>

definition lm_shrinks :: "string list \<Rightarrow> (string, line_profile) minimizer \<Rightarrow> bool" where
  "lm_shrinks t0 s =
     (subseq (template s) t0 \<and>
      (\<forall>f \<in> set (written s). \<exists>ls. snd f = concat ls \<and> subseq ls t0))"

section \<open>Target Profile resolution\<close>

lemma read_timeout_missing: "read_timeout None = Inl AttributeError"
  by (simp add: read_timeout_def)

lemma read_configuration_no_timeout:
  assumes "cfg_exists cfg" and "section \<in> set (cfg_sections cfg)"
    and "cfg_get cfg section ''command'' = Some cmd"
    and "cfg_get cfg section ''extension'' = Some ext"
    and "cfg_get cfg section ''minimize-timeout'' = None"
  shows "read_configuration pk cfg section = Inl AttributeError"
  using assms by (simp add: read_configuration_def read_timeout_missing)

text \<open>
  Claim C1. A section holding only \<^verbatim>\<open>command\<close> and \<^verbatim>\<open>extension\<close> should
  resolve to a profile with the default timeout of 90 seconds. The code stores the
  integer 90 and then calls \<^verbatim>\<open>.lower()\<close> on it: resolution raises
  \<^verbatim>\<open>AttributeError\<close> instead of succeeding.
\<close>

theorem read_configuration_minimal_raises:
  "read_configuration pk minimal_cfg ''target'' = Inl AttributeError"
  by (simp add: read_configuration_def minimal_cfg_def read_timeout_missing)

lemma py_int_30: "py_int ''30'' = Inr 30"
  by (simp add: py_int_def strip_def is_space_def isdigit_def digit_val_def digits_val_def)

lemma read_target_cfg: "read_configuration False (target_cfg []) ''target'' = Inr target_profile"
  by (simp add: read_configuration_def target_cfg_def target_profile_def read_timeout_def
      lower_def lower_char_def py_int_30 int_or_def read_env_def read_signal_def read_mode_def
      read_debugging_interface_def)

lemma read_target_cfg_line:
  "read_configuration_line False (target_cfg []) ''target'' = Inr target_line_profile"
proof -
  have "cfg_get (target_cfg []) ''target'' ''line-per-line'' = None"
    and "cfg_get (target_cfg []) ''target'' ''lines-to-rip'' = None"
    and "cfg_get (target_cfg []) ''target'' ''lines-percent'' = None"
    and "cfg_get (target_cfg []) ''target'' ''crash-path'' = None"
    by (simp_all add: target_cfg_def)
  then show ?thesis
    by (simp add: read_configuration_line_def read_target_cfg target_line_profile_def
        read_line_per_line_def int_or_def)
qed

section \<open>The crash verdict\<close>

lemma list_gt_int: "py2_gt (PyList xs) (PyInt n)"
  by simp

lemma crash_file_exists_configured:
  "crash_path p = Some d \<Longrightarrow> crash_file_exists w p it"
  by (simp add: crash_file_exists_def)

text \<open>
  Claim C2. With a marker directory configured, a trial should count as crashed exactly
  when the exit code is a crash or the directory is not empty afterwards. In the line
  minimizer \<^verbatim>\<open>crash_file_exists\<close> compares the directory listing itself with
  \<open>0\<close>, which Python 2 answers with true for any list: with the directory
  \<^verbatim>\<open>/tmp/markers\<close> configured and empty, no crash signal configured and the exit
  code \<open>0\<close>, the trial is judged crashed.
\<close>

theorem crash_file_exists_empty_marker_dir:
  "crash_path (target_line_profile\<lparr>crash_path := Some ''/tmp/markers''\<rparr>) = Some ''/tmp/markers''
   \<and> listdir (exit_world (\<lambda>c. Some 0) (target_cfg [(''crash-path'', ''/tmp/markers'')]))
         0 ''/tmp/markers'' = []
   \<and> \<not> in_return_signals
         (exit_world (\<lambda>c. Some 0) (target_cfg [(''crash-path'', ''/tmp/markers'')])) (Some 0)
   \<and> \<not> is_signal (target_line_profile\<lparr>crash_path := Some ''/tmp/markers''\<rparr>) (Some 0)
   \<and> lm_crashed (exit_world (\<lambda>c. Some 0) (target_cfg [(''crash-path'', ''/tmp/markers'')]))
         (target_line_profile\<lparr>crash_path := Some ''/tmp/markers''\<rparr>) 0 (Some 0)"
  by code_simp

text \<open>
  Claim C10. In the byte-diff minimizer the verdict of an executed trial should be a
  boolean for every exit code. The class has no \<^verbatim>\<open>crash_file_exists\<close>, so an exit
  code that is no crash (here \<open>0\<close>) raises \<^verbatim>\<open>AttributeError\<close>; and a crash matched
  by the configured signal only (here \<open>77\<close>) raises \<^verbatim>\<open>KeyError\<close> in the log line
  that looks the code up in \<^verbatim>\<open>RETURN_SIGNALS\<close>.
\<close>

theorem gm_verdict_raises:
  "gm_verdict (exit_world (\<lambda>c. Some 0) (target_cfg [])) target_profile (Some 0)
     = Inl AttributeError
   \<and> gm_verdict (exit_world (\<lambda>c. Some 77) (target_cfg [(''signal'', ''77'')]))
         (target_profile\<lparr>signal := Some 77\<rparr>) (Some 77)
     = Inl KeyError"
  by code_simp


section \<open>The command line handed to the subject\<close>

text \<open>
  Claim C4. In either minimizer the candidate path should replace the placeholder when
  the command has one. The line minimizer does so; the byte-diff minimizer appends the
  path to the command \<^verbatim>\<open>/usr/bin/target @@ -q\<close> and leaves the placeholder in.
\<close>

theorem gm_command_keeps_placeholder:
  "find (command (target_profile\<lparr>command := ''/usr/bin/target @@ -q''\<rparr>)) ''@@'' = 16
   \<and> gm_command (target_profile\<lparr>command := ''/usr/bin/target @@ -q''\<rparr>) ''/tmp/f''
       = ''/usr/bin/target @@ -q /tmp/f''
   \<and> lm_command (target_profile\<lparr>command := ''/usr/bin/target @@ -q''\<rparr>) ''/tmp/f''
       = ''/usr/bin/target /tmp/f -q''"
  by code_simp

section \<open>Resumption\<close>

lemma lm_do_try_ignores_start_at:
  "lm_do_try fuel w section outdir start_at s = lm_do_try fuel w section outdir 0 s"
  by (simp add: lm_do_try_def)

text \<open>
  Claim C3. With a starting iteration supplied, trials below it should not run the
  subject. The line minimizer reads \<^verbatim>\<open>NIGHTMARE_ITERATION\<close> and passes it on, but
  \<^verbatim>\<open>do_try\<close> never looks at it: started at iteration 1 on a one-line file, it runs
  the subject at iteration 0.
\<close>

theorem lm_runs_trial_below_start_at:
  "read_start_at (Some ''1'') = Inr 1
   \<and> executed (flow_state
        (lm_minimize 2 (exit_world (\<lambda>c. Some 0) (target_cfg [])) ''target''
           [[CHR ''a'', CHR 0x0A]] ''out'' (Some ''1'') (init target_line_profile True)))
       = [(0, ''/usr/bin/target /tmp/tmpfile.txt'', [])]"
  by code_simp

section \<open>An oracle that never reports a crash\<close>

text \<open>
  Claim C6. When no trial crashes, the byte-diff minimizer should shrink the diff to
  nothing and end without writing a file. Its first executed trial raises instead
  (the missing method of claim C10): on the template \<^verbatim>\<open>A\<close>, the crashing file
  \<^verbatim>\<open>B\<close> and the diff \<open>[0]\<close>, with a subject that always exits with \<open>0\<close>, the run
  ends with \<^verbatim>\<open>AttributeError\<close> and the diff still holds its offset.
\<close>

theorem gm_no_crash_raises:
  "(case gm_minimize (exit_world (\<lambda>c. Some 0) (target_cfg [])) [[CHR ''0'', CHR 0x0A]]
           ''A'' ''B'' ''out'' None (init target_profile True) of
      Raise e s \<Rightarrow> e = AttributeError \<and> diff s = [0] \<and> written s = []
    | Next s \<Rightarrow> False
    | Break s \<Rightarrow> False)"
  by code_simp

section \<open>The byte-diff minimizer\<close>







section \<open>The frame of a byte-diff run\<close>

lemma differs_only_at_update:
  "differs_only_at D t0 buf \<Longrightarrow> pos \<in> D \<Longrightarrow> differs_only_at D t0 (buf[pos := b])"
proof -
  assume d: "differs_only_at D t0 buf" and p: "pos \<in> D"
  have "buf[pos := b] ! i = t0 ! i" if "i < length t0" and "i \<notin> D" for i
  proof -
    from that p have "i \<noteq> pos" by blast
    then have "buf[pos := b] ! i = buf ! i" by simp
    with d that show ?thesis by (simp add: differs_only_at_def)
  qed
  with d show ?thesis by (simp add: differs_only_at_def)
qed

lemma gm_trial_frame:
  assumes "gm_frame D t0 s" and "pos \<in> D"
  shows "gm_frame D t0 (flow_state (gm_trial w outdir start_at pos s))"
  using assms
  by (auto simp: gm_trial_def gm_frame_def Let_def differs_only_at_update
      split: option.splits sum.splits)

lemma gm_pass_frame:
  assumes "gm_frame D t0 s" and "set ps \<subseteq> D"
  shows "gm_frame D t0 (flow_state (gm_pass w outdir start_at ps s))"
  using assms
proof (induction ps arbitrary: s)
  case Nil
  then show ?case by simp
next
  case (Cons pos ps)
  from Cons.prems have f: "gm_frame D t0 (flow_state (gm_trial w outdir start_at pos s))"
    by (simp add: gm_trial_frame)
  show ?case
  proof (cases "gm_trial w outdir start_at pos s")
    case (Next s')
    with f Cons.prems Cons.IH[of s'] show ?thesis by simp
  next
    case (Break s')
    with f show ?thesis by simp
  next
    case (Raise e s')
    with f show ?thesis by simp
  qed
qed

lemma gm_pop_frame:
  assumes "gm_frame D t0 s"
  shows "gm_frame D t0 (flow_state (gm_pop s))"
proof (cases "diff s = []")
  case True
  with assms show ?thesis by (simp add: gm_pop_def)
next
  case False
  then have "last (diff s) \<in> set (diff s)" by simp
  with assms have "last (diff s) \<in> D" by (auto simp: gm_frame_def)
  moreover have "set (butlast (diff s)) \<subseteq> set (diff s)" by (auto dest: in_set_butlastD)
  ultimately show ?thesis
    using assms False
    by (auto simp: gm_pop_def gm_frame_def Let_def differs_only_at_update split: option.splits)
qed

lemma gm_round_frame:
  assumes "gm_frame D t0 s"
  shows "gm_frame D t0 (flow_state (gm_round w outdir start_at s))"
proof -
  from assms have sub: "set (diff s) \<subseteq> D" by (simp add: gm_frame_def)
  have f: "gm_frame D t0 (flow_state (gm_pass w outdir start_at (diff s) s))"
    using assms sub by (rule gm_pass_frame)
  show ?thesis
  proof (cases "gm_pass w outdir start_at (diff s) s")
    case (Next s1)
    with f show ?thesis by (simp add: gm_round_def gm_pop_frame)
  next
    case (Break s1)
    with f show ?thesis by (simp add: gm_round_def)
  next
    case (Raise e s1)
    with f show ?thesis by (simp add: gm_round_def)
  qed
qed

lemma gm_rounds_frame:
  assumes "gm_frame D t0 s"
  shows "gm_frame D t0 (flow_state (gm_rounds w outdir start_at n s))"
  using assms
proof (induction n arbitrary: s)
  case 0
  then show ?case by simp
next
  case (Suc n)
  from Suc.prems have f: "gm_frame D t0 (flow_state (gm_round w outdir start_at s))"
    by (rule gm_round_frame)
  show ?case
  proof (cases "gm_round w outdir start_at s")
    case (Next s1)
    with f Suc.IH[of s1] show ?thesis by simp
  next
    case (Break s1)
    with f show ?thesis by simp
  next
    case (Raise e s1)
    with f show ?thesis by simp
  qed
qed

lemma gm_do_try_frame:
  assumes "gm_frame D t0 s"
  shows "gm_frame D t0 (flow_state (gm_do_try w outdir start_at s))"
proof -
  from assms have "gm_frame D t0 (s\<lparr>minimized := False, iteration := 0\<rparr>)"
    by (simp add: gm_frame_def)
  then show ?thesis unfolding gm_do_try_def by (rule gm_rounds_frame)
qed

lemma differs_only_at_refl: "differs_only_at D t0 t0"
  by (simp add: differs_only_at_def)

lemma gm_minimize_frame:
  "gm_frame (set (read_diff diff_lines [])) template_bytes
     (flow_state (gm_minimize w diff_lines template_bytes crash_bytes outdir nightmare_iteration
        (init p outdir_there)))"
proof -
  let ?D = "set (read_diff diff_lines [])"
  let ?s2 = "(init p outdir_there :: (char, profile) minimizer)
               \<lparr>diff := read_diff diff_lines [], template := template_bytes\<rparr>"
  have f: "gm_frame ?D template_bytes (?s2\<lparr>crash := m\<rparr>)" for m
    by (simp add: gm_frame_def init_def differs_only_at_refl)
  have f2: "gm_frame ?D template_bytes ?s2"
    by (simp add: gm_frame_def init_def differs_only_at_refl)
  show ?thesis
    using f f2 gm_do_try_frame[OF f]
    by (simp add: gm_minimize_def Let_def init_def split: sum.splits)
qed

text \<open>
  Claim C8. Whatever a byte-diff run does and however it ends, the Template Buffer, every
  candidate handed to the subject and every file persisted have the length of the
  original template and its bytes at every offset that the diff file does not list.
\<close>

theorem gm_minimize_touches_diff_only:
  fixes w diff_lines template_bytes crash_bytes outdir nightmare_iteration p outdir_there
  defines "r \<equiv> flow_state (gm_minimize w diff_lines template_bytes crash_bytes outdir
                   nightmare_iteration (init p outdir_there))"
    and "D \<equiv> set (read_diff diff_lines [])"
  shows "differs_only_at D template_bytes (template r)
         \<and> (\<forall>e \<in> set (executed r). differs_only_at D template_bytes (snd (snd e)))
         \<and> (\<forall>f \<in> set (written r). differs_only_at D template_bytes (snd f))"
  using gm_minimize_frame[of diff_lines template_bytes w crash_bytes outdir nightmare_iteration
      p outdir_there]
  unfolding r_def D_def gm_frame_def by blast

theorem gm_minimize_touches_diff_only_witness:
  "read_diff [[CHR ''0'', CHR 0x0A], [CHR ''2'', CHR 0x0A]] [] = [0, 2]
   \<and> written (flow_state (gm_minimize
        (exit_world (\<lambda>c. if hd c = CHR ''A'' then Some 0 else Some 139) (target_cfg []))
        [[CHR ''0'', CHR 0x0A], [CHR ''2'', CHR 0x0A]] ''AAAA'' ''BABA'' ''out'' None
        (init target_profile True)))
     = [(''out/sha1.txt'', ''BAAA'')]
   \<and> differs_only_at (set [0, 2]) ''AAAA'' ''BAAA''"
proof -
  let ?w = "exit_world (\<lambda>c. if hd c = CHR ''A'' then Some 0 else Some 139) (target_cfg [])"
  let ?r = "flow_state (gm_minimize ?w
        [[CHR ''0'', CHR 0x0A], [CHR ''2'', CHR 0x0A]] ''AAAA'' ''BABA'' ''out'' None
        (init target_profile True))"
  have d: "read_diff [[CHR ''0'', CHR 0x0A], [CHR ''2'', CHR 0x0A]] [] = [0, 2]"
    by code_simp
  have wr: "written ?r = [(''out/sha1.txt'', ''BAAA'')]"
    by code_simp
  from gm_minimize_touches_diff_only[of
      "[[CHR ''0'', CHR 0x0A], [CHR ''2'', CHR 0x0A]]" "''AAAA''" ?w "''BABA''" "''out''" None
      target_profile True]
  have "\<forall>f \<in> set (written ?r).
          differs_only_at (set (read_diff [[CHR ''0'', CHR 0x0A], [CHR ''2'', CHR 0x0A]] []))
            ''AAAA'' (snd f)"
    by blast
  with wr d have "differs_only_at (set [0, 2]) ''AAAA'' ''BAAA''" by simp
  with d wr show ?thesis by blast
qed

section \<open>The line minimizer never grows its buffer\<close>

lemma randint_range: "randint w it a b = Inr k \<Longrightarrow> a \<le> k \<and> k \<le> b"
proof -
  assume r: "randint w it a b = Inr k"
  then have ab: "a \<le> b" by (simp add: randint_def split: if_splits)
  from r ab have k: "k = a + int (randbits w it mod nat (b - a + 1))"
    by (simp add: randint_def)
  from ab have "0 < nat (b - a + 1)" by simp
  then have "randbits w it mod nat (b - a + 1) < nat (b - a + 1)" by (rule mod_less_divisor)
  with k ab show ?thesis by linarith
qed

lemma rip_count_nonneg:
  assumes "rip_count w p it lps total_lines cur = Inr k" and "0 \<le> lines_to_rip p"
  shows "0 \<le> k"
proof (cases "lps = 0 \<and> \<not> line_per_line p")
  case True
  with assms(1) obtain b where "randint w it 1 b = Inr k"
    by (auto simp: rip_count_def Let_def)
  from randint_range[OF this] show ?thesis by simp
next
  case False
  with assms show ?thesis by (auto simp: rip_count_def)
qed

lemma py_slice_from_nonneg: "0 \<le> j \<Longrightarrow> py_slice_from xs j = drop (nat j) xs"
  by (simp add: py_slice_from_def)

lemma rip_lines_eq:
  "0 \<le> k \<Longrightarrow> take c xs @ py_slice_from xs (int c + k) = take c xs @ drop (c + nat k) xs"
  by (simp add: py_slice_from_nonneg nat_add_distrib)

lemma rip_lines_subseq: "subseq (take c xs @ drop (c + n) xs) xs"
proof -
  have "suffix (drop n (drop c xs)) (drop c xs)" by (rule suffix_drop)
  then have "subseq (drop n (drop c xs)) (drop c xs)" by (rule suffix_imp_subseq)
  then have d: "subseq (drop (c + n) xs) (drop c xs)" by (simp add: add.commute)
  have "subseq (take c xs @ drop (c + n) xs) (take c xs @ drop c xs)"
    using d by (simp only: subseq_append')
  then show ?thesis by (simp only: append_take_drop_id)
qed

lemma lm_trial_shape:
  "(case lm_trial w sec outdir total_lines i s of
      Raise e s' \<Rightarrow> template s' = template s \<and> written s' = written s
    | Break s' \<Rightarrow> template s' = template s \<and> written s' = written s
    | Next s' \<Rightarrow>
        (template s' = template s \<and> written s' = written s) \<or>
        (\<exists>p k. read_configuration_line (has_pykd w) (cfg_at w (iteration s)) sec = Inr p
            \<and> rip_count w p (iteration s) (loops s) total_lines (current_line s) = Inr k
            \<and> template s' = take (current_line s) (template s) @
                  py_slice_from (template s) (int (current_line s) + k)
            \<and> written s' = written s @
                  [(path_join outdir (''last_minimized'' @ extension p), concat (template s'))]))"
  by (simp add: lm_trial_def Let_def split: sum.splits)


lemma lm_trial_step:
  assumes cfg: "\<forall>it p. read_configuration_line (has_pykd w) (cfg_at w it) sec = Inr p
                  \<longrightarrow> 0 \<le> lines_to_rip p"
  shows "(template (flow_state (lm_trial w sec outdir total_lines i s)) = template s
            \<and> written (flow_state (lm_trial w sec outdir total_lines i s)) = written s)
         \<or> (\<exists>n name. template (flow_state (lm_trial w sec outdir total_lines i s))
                        = take (current_line s) (template s) @
                            drop (current_line s + n) (template s)
               \<and> written (flow_state (lm_trial w sec outdir total_lines i s))
                   = written s @
                       [(name, concat (template (flow_state
                           (lm_trial w sec outdir total_lines i s))))])"
proof (cases "lm_trial w sec outdir total_lines i s")
  case (Next s')
  from lm_trial_shape[where w=w and sec=sec and outdir=outdir and total_lines=total_lines and i=i and s=s] Next
  consider "template s' = template s \<and> written s' = written s"
    | p k where "read_configuration_line (has_pykd w) (cfg_at w (iteration s)) sec = Inr p"
        "rip_count w p (iteration s) (loops s) total_lines (current_line s) = Inr k"
        "template s' = take (current_line s) (template s) @
            py_slice_from (template s) (int (current_line s) + k)"
        "written s' = written s @
            [(path_join outdir (''last_minimized'' @ extension p), concat (template s'))]"
    by auto
  then show ?thesis
  proof cases
    case 1
    with Next show ?thesis by simp
  next
    case 2
    from cfg 2(1) have "0 \<le> lines_to_rip p" by blast
    with 2(2) have "0 \<le> k" by (rule rip_count_nonneg)
    with 2(3) have "template s' = take (current_line s) (template s) @
        drop (current_line s + nat k) (template s)"
      by (simp only: rip_lines_eq)
    with 2(4) Next show ?thesis by auto
  qed
next
  case (Break s')
  with lm_trial_shape[where w=w and sec=sec and outdir=outdir and total_lines=total_lines and i=i and s=s] show ?thesis by simp
next
  case (Raise e s')
  with lm_trial_shape[where w=w and sec=sec and outdir=outdir and total_lines=total_lines and i=i and s=s] show ?thesis by simp
qed

lemma lm_trial_shrinks:
  assumes cfg: "\<forall>it p. read_configuration_line (has_pykd w) (cfg_at w it) sec = Inr p
                  \<longrightarrow> 0 \<le> lines_to_rip p"
    and inv: "lm_shrinks t0 s"
  shows "lm_shrinks t0 (flow_state (lm_trial w sec outdir total_lines i s))"
proof -
  let ?s' = "flow_state (lm_trial w sec outdir total_lines i s)"
  from lm_trial_step[OF cfg, of outdir total_lines i s]
  consider "template ?s' = template s \<and> written ?s' = written s"
    | n name where "template ?s' = take (current_line s) (template s) @
                       drop (current_line s + n) (template s)"
        "written ?s' = written s @ [(name, concat (template ?s'))]"
    by blast
  then show ?thesis
  proof cases
    case 1
    with inv show ?thesis by (simp add: lm_shrinks_def)
  next
    case 2
    from 2(1) have "subseq (template ?s') (template s)" by (simp only: rip_lines_subseq)
    moreover from inv have "subseq (template s) t0" by (simp add: lm_shrinks_def)
    ultimately have sub: "subseq (template ?s') t0" by (rule subseq_order.trans)
    have "\<exists>ls. snd f = concat ls \<and> subseq ls t0" if "f \<in> set (written ?s')" for f
    proof -
      from that 2(2) have "f \<in> set (written s) \<or> f = (name, concat (template ?s'))" by auto
      then show ?thesis
      proof
        assume "f \<in> set (written s)"
        with inv show ?thesis by (simp add: lm_shrinks_def)
      next
        assume "f = (name, concat (template ?s'))"
        with sub show ?thesis by auto
      qed
    qed
    with sub show ?thesis by (simp add: lm_shrinks_def)
  qed
qed

lemma lm_pass_shrinks:
  assumes cfg: "\<forall>it p. read_configuration_line (has_pykd w) (cfg_at w it) sec = Inr p
                  \<longrightarrow> 0 \<le> lines_to_rip p"
    and inv: "lm_shrinks t0 s"
  shows "lm_shrinks t0 (flow_state (lm_pass w sec outdir total_lines js s))"
  using inv
proof (induction js arbitrary: s)
  case Nil
  then show ?case by simp
next
  case (Cons j js)
  from cfg Cons.prems
  have f: "lm_shrinks t0 (flow_state (lm_trial w sec outdir total_lines j s))"
    by (rule lm_trial_shrinks)
  show ?case
  proof (cases "lm_trial w sec outdir total_lines j s")
    case (Next s')
    with f Cons.IH[of s'] show ?thesis by simp
  next
    case (Break s')
    with f show ?thesis by simp
  next
    case (Raise e s')
    with f show ?thesis by simp
  qed
qed

lemma lm_finish_shrinks:
  assumes "lm_shrinks t0 s"
  shows "lm_shrinks t0 (flow_state (lm_finish w outdir s))"
  using assms by (auto simp: lm_finish_def lm_shrinks_def)

lemma lm_loop_shrinks:
  assumes cfg: "\<forall>it p. read_configuration_line (has_pykd w) (cfg_at w it) sec = Inr p
                  \<longrightarrow> 0 \<le> lines_to_rip p"
    and inv: "lm_shrinks t0 s"
  shows "lm_shrinks t0 (flow_state (lm_loop fuel w sec outdir s))"
  using inv
proof (induction fuel arbitrary: s)
  case 0
  then show ?case by simp
next
  case (Suc fuel)
  let ?s0 = "s\<lparr>minimized := False, current_line := 0\<rparr>"
  let ?n = "length (template s)"
  let ?r = "lm_pass w sec outdir ?n [0..<?n] ?s0"
  from Suc.prems have "lm_shrinks t0 ?s0" by (simp add: lm_shrinks_def)
  with cfg have f: "lm_shrinks t0 (flow_state ?r)" by (rule lm_pass_shrinks)
  then have g: "lm_shrinks t0 ((flow_state ?r)\<lparr>loops := Suc (loops (flow_state ?r))\<rparr>)"
    by (simp add: lm_shrinks_def)
  show ?case
  proof (cases ?r)
    case (Next s1)
    with g Suc.IH lm_finish_shrinks show ?thesis by (simp add: Let_def)
  next
    case (Break s1)
    with g Suc.IH lm_finish_shrinks show ?thesis by (simp add: Let_def)
  next
    case (Raise e s1)
    with f show ?thesis by (simp add: Let_def)
  qed
qed

lemma lm_minimize_shrinks:
  assumes cfg: "\<forall>it p. read_configuration_line (has_pykd w) (cfg_at w it) sec = Inr p
                  \<longrightarrow> 0 \<le> lines_to_rip p"
  shows "lm_shrinks input_lines
     (flow_state (lm_minimize fuel w sec input_lines outdir nightmare_iteration
        (init p0 outdir_there)))"
proof -
  let ?s1 = "(init p0 outdir_there :: (string, line_profile) minimizer)
               \<lparr>template := read_template input_lines\<rparr>"
  have s1: "lm_shrinks input_lines ?s1"
    by (simp add: lm_shrinks_def init_def read_template_def)
  then have "lm_shrinks input_lines (?s1\<lparr>current_line := 0, iteration := 0, loops := 0\<rparr>)"
    by (simp add: lm_shrinks_def)
  with cfg have "lm_shrinks input_lines (flow_state (lm_do_try fuel w sec outdir st ?s1))" for st
    unfolding lm_do_try_def by (rule lm_loop_shrinks)
  with s1 show ?thesis
    by (simp add: lm_minimize_def Let_def split: sum.splits)
qed


text \<open>
  Claim C9, amended. Provided that no configuration read during the run holds a negative
  \<^verbatim>\<open>lines-to-rip\<close>: a trial leaves the Line Buffer as it is or deletes the lines
  from \<open>current_line\<close> to \<open>current_line + n\<close>, so the buffer never gets longer; and
  after a run, whatever its end, the buffer and every file written hold a sub-sequence
  of the input's lines, so at most as many.
\<close>

theorem lm_never_grows:
  fixes w sec outdir total_lines i s fuel input_lines nightmare_iteration p0 outdir_there
  defines "s' \<equiv> flow_state (lm_trial w sec outdir total_lines i s)"
    and "r \<equiv> flow_state (lm_minimize fuel w sec input_lines outdir nightmare_iteration
                  (init p0 outdir_there))"
  assumes cfg: "\<forall>it p. read_configuration_line (has_pykd w) (cfg_at w it) sec = Inr p
                  \<longrightarrow> 0 \<le> lines_to_rip p"
  shows "(template s' = template s
            \<or> (\<exists>n. template s' = take (current_line s) (template s) @
                                  drop (current_line s + n) (template s)))
         \<and> length (template s') \<le> length (template s)
         \<and> length (template r) \<le> length input_lines
         \<and> (\<forall>f \<in> set (written r).
               \<exists>ls. snd f = concat ls \<and> subseq ls input_lines \<and> length ls \<le> length input_lines)"
proof -
  from lm_trial_step[OF cfg, of outdir total_lines i s]
  have step: "template s' = template s
            \<or> (\<exists>n. template s' = take (current_line s) (template s) @
                                  drop (current_line s + n) (template s))"
    unfolding s'_def by blast
  then have "subseq (template s') (template s)"
    by (auto simp: rip_lines_subseq)
  then have len: "length (template s') \<le> length (template s)" by (rule list_emb_length)
  from lm_minimize_shrinks[OF cfg] have inv: "lm_shrinks input_lines r"
    unfolding r_def .
  then have "subseq (template r) input_lines" by (simp add: lm_shrinks_def)
  then have lenr: "length (template r) \<le> length input_lines" by (rule list_emb_length)
  have files: "\<exists>ls. snd f = concat ls \<and> subseq ls input_lines \<and> length ls \<le> length input_lines"
    if "f \<in> set (written r)" for f
  proof -
    from inv that obtain ls where "snd f = concat ls" "subseq ls input_lines"
      by (auto simp: lm_shrinks_def)
    moreover from this(2) have "length ls \<le> length input_lines" by (rule list_emb_length)
    ultimately show ?thesis by blast
  qed
  from step len lenr files show ?thesis by blast
qed

lemma lines_to_rip_target: "lines_to_rip target_line_profile = 1"
  by (simp add: target_line_profile_def line_profile.defs profile.defs)

theorem lm_never_grows_witness:
  "template (flow_state (lm_minimize 3
       (exit_world (\<lambda>c. if CHR ''X'' \<in> set c then Some 139 else Some 0) (target_cfg []))
       ''target'' [[CHR ''a'', CHR 0x0A], [CHR ''X'', CHR 0x0A], [CHR ''b'', CHR 0x0A]] ''out'' None
       (init target_line_profile True)))
     = [[CHR ''X'', CHR 0x0A]]
   \<and> length (template (flow_state (lm_minimize 3
       (exit_world (\<lambda>c. if CHR ''X'' \<in> set c then Some 139 else Some 0) (target_cfg []))
       ''target'' [[CHR ''a'', CHR 0x0A], [CHR ''X'', CHR 0x0A], [CHR ''b'', CHR 0x0A]] ''out'' None
       (init target_line_profile True))))
     \<le> length [[CHR ''a'', CHR 0x0A], [CHR ''X'', CHR 0x0A], [CHR ''b'', CHR 0x0A]]"
proof -
  let ?w = "exit_world (\<lambda>c. if CHR ''X'' \<in> set c then Some 139 else Some 0) (target_cfg [])"
  have cfg: "\<forall>it p. read_configuration_line (has_pykd ?w) (cfg_at ?w it) ''target'' = Inr p
               \<longrightarrow> 0 \<le> lines_to_rip p"
    by (simp add: exit_world_def read_target_cfg_line lines_to_rip_target)
  have run: "template (flow_state (lm_minimize 3 ?w
       ''target'' [[CHR ''a'', CHR 0x0A], [CHR ''X'', CHR 0x0A], [CHR ''b'', CHR 0x0A]] ''out'' None
       (init target_line_profile True)))
     = [[CHR ''X'', CHR 0x0A]]"
    by code_simp
  from lm_never_grows[OF cfg, of "''out''" 0 0 "init target_line_profile True" 3
      "[[CHR ''a'', CHR 0x0A], [CHR ''X'', CHR 0x0A], [CHR ''b'', CHR 0x0A]]" None
      target_line_profile True]
  have "length (template (flow_state (lm_minimize 3 ?w
       ''target'' [[CHR ''a'', CHR 0x0A], [CHR ''X'', CHR 0x0A], [CHR ''b'', CHR 0x0A]] ''out'' None
       (init target_line_profile True))))
     \<le> length [[CHR ''a'', CHR 0x0A], [CHR ''X'', CHR 0x0A], [CHR ''b'', CHR 0x0A]]"
    by blast
  with run show ?thesis by blast
qed

text \<open>
  Claim C9 as stated fails: the slice \<^verbatim>\<open>lines[current_line + lines_to_rip:]\<close>
  with \<^verbatim>\<open>lines-to-rip = -1\<close> starts before the cursor, so an accepted candidate
  repeats a line. On the two lines \<^verbatim>\<open>a\<close>, \<^verbatim>\<open>b\<close>, with a subject that
  crashes on the three lines \<^verbatim>\<open>a\<close>, \<^verbatim>\<open>a\<close>, \<^verbatim>\<open>b\<close>, the buffer grows to three
  lines and both files written hold three lines.
\<close>

theorem lm_negative_rip_grows:
  "template (flow_state (lm_minimize 5
       (exit_world (\<lambda>c. if c = [CHR ''a'', CHR 0x0A, CHR ''a'', CHR 0x0A, CHR ''b'', CHR 0x0A]
                         then Some 139 else Some 0)
          (target_cfg [(''line-per-line'', ''1''), (''lines-to-rip'', ''-1'')]))
       ''target'' [[CHR ''a'', CHR 0x0A], [CHR ''b'', CHR 0x0A]] ''out'' None
       (init (target_line_profile\<lparr>line_per_line := True, lines_to_rip := - 1\<rparr>) True)))
     = [[CHR ''a'', CHR 0x0A], [CHR ''a'', CHR 0x0A], [CHR ''b'', CHR 0x0A]]
   \<and> map snd (written (flow_state (lm_minimize 5
       (exit_world (\<lambda>c. if c = [CHR ''a'', CHR 0x0A, CHR ''a'', CHR 0x0A, CHR ''b'', CHR 0x0A]
                         then Some 139 else Some 0)
          (target_cfg [(''line-per-line'', ''1''), (''lines-to-rip'', ''-1'')]))
       ''target'' [[CHR ''a'', CHR 0x0A], [CHR ''b'', CHR 0x0A]] ''out'' None
       (init (target_line_profile\<lparr>line_per_line := True, lines_to_rip := - 1\<rparr>) True))))
     = [[CHR ''a'', CHR 0x0A, CHR ''a'', CHR 0x0A, CHR ''b'', CHR 0x0A],
        [CHR ''a'', CHR 0x0A, CHR ''a'', CHR 0x0A, CHR ''b'', CHR 0x0A]]
   \<and> \<not> length (template (flow_state (lm_minimize 5
       (exit_world (\<lambda>c. if c = [CHR ''a'', CHR 0x0A, CHR ''a'', CHR 0x0A, CHR ''b'', CHR 0x0A]
                         then Some 139 else Some 0)
          (target_cfg [(''line-per-line'', ''1''), (''lines-to-rip'', ''-1'')]))
       ''target'' [[CHR ''a'', CHR 0x0A], [CHR ''b'', CHR 0x0A]] ''out'' None
       (init (target_line_profile\<lparr>line_per_line := True, lines_to_rip := - 1\<rparr>) True))))
     \<le> length [[CHR ''a'', CHR 0x0A], [CHR ''b'', CHR 0x0A]]"
  by code_simp

section \<open>An oracle that always reports a crash\<close>


lemma hook_gate_ok: "n \<noteq> 0 \<Longrightarrow> \<exists>hs. hook_gate i n c = Inr hs"
  by (simp add: hook_gate_def)








lemma target_line_profile_fields:
  "pre_iterations target_line_profile = 1"
  "post_iterations target_line_profile = 1"
  "lines_percent target_line_profile = 10"
  "debugging_interface target_line_profile = None"
  "signal target_line_profile = None"
  by (simp_all add: target_line_profile_def target_profile_def line_profile.defs profile.defs)


section \<open>Further properties\<close>

subsection \<open>The line minimizer when no trial is judged crashed\<close>

lemma rip_count_defined:
  assumes "0 \<le> lines_percent p" and "cur \<le> total_lines"
  shows "\<exists>k. rip_count w p it lps total_lines cur = Inr k"
proof (cases "lps = 0 \<and> \<not> line_per_line p")
  case True
  let ?val = "((int total_lines - int cur) * lines_percent p) div 100"
  let ?val' = "if ?val = 0 then 1 else ?val"
  from assms have "0 \<le> (int total_lines - int cur) * lines_percent p" by simp
  then have "0 \<le> ?val" by (simp add: pos_imp_zdiv_nonneg_iff)
  then have "1 \<le> ?val'" by simp
  then have "randint w it 1 ?val' = Inr (1 + int (randbits w it mod nat (?val' - 1 + 1)))"
    unfolding randint_def by (simp only: not_less [symmetric] if_False)
  with True show ?thesis by (simp add: rip_count_def Let_def)
next
  case False
  then show ?thesis by (auto simp: rip_count_def)
qed

lemma lm_trial_no_crash:
  assumes cfg: "\<forall>it. \<exists>p. read_configuration_line (has_pykd w) (cfg_at w it) sec = Inr p
                  \<and> pre_iterations p \<noteq> 0 \<and> post_iterations p \<noteq> 0
                  \<and> 0 \<le> lines_percent p
                  \<and> (\<forall>cmd buf. \<not> lm_crashed w p it (execute_command w p it cmd buf))"
    and cur: "current_line s < length (template s)"
    and total: "total_lines = length (template s)"
  shows "\<exists>s'. lm_trial w sec outdir total_lines i s = Next s'
           \<and> template s' = template s
           \<and> current_line s' = Suc (current_line s)
           \<and> loops s' = loops s
           \<and> outdir_exists s' = outdir_exists s
           \<and> written s' = written s
           \<and> length (executed s') = Suc (length (executed s))"
proof -
  from cfg obtain p where
    p: "read_configuration_line (has_pykd w) (cfg_at w (iteration s)) sec = Inr p"
    and pre: "pre_iterations p \<noteq> 0" and post: "post_iterations p \<noteq> 0"
    and pct: "0 \<le> lines_percent p"
    and cr: "\<And>cmd buf. \<not> lm_crashed w p (iteration s)
               (execute_command w p (iteration s) cmd buf)"
    by blast
  from cur total have "current_line s \<le> total_lines" by simp
  from rip_count_defined[OF pct this, of w "iteration s" "loops s"]
  obtain k where k: "rip_count w p (iteration s) (loops s) total_lines (current_line s) = Inr k"
    by blast
  from hook_gate_ok[OF pre] obtain hs1 where
    h1: "hook_gate (int i) (pre_iterations p) (pre_command p) = Inr hs1" by blast
  from hook_gate_ok[OF post] obtain hs2 where
    h2: "hook_gate (int i) (post_iterations p) (post_command p) = Inr hs2" by blast
  from p k h1 h2 cr cur show ?thesis
    by (simp add: lm_trial_def Let_def)
qed

lemma lm_pass_no_crash:
  assumes cfg: "\<forall>it. \<exists>p. read_configuration_line (has_pykd w) (cfg_at w it) sec = Inr p
                  \<and> pre_iterations p \<noteq> 0 \<and> post_iterations p \<noteq> 0
                  \<and> 0 \<le> lines_percent p
                  \<and> (\<forall>cmd buf. \<not> lm_crashed w p it (execute_command w p it cmd buf))"
    and room: "current_line s + length js \<le> length (template s)"
    and total: "total_lines = length (template s)"
  shows "\<exists>s'. lm_pass w sec outdir total_lines js s = Next s'
           \<and> template s' = template s
           \<and> loops s' = loops s
           \<and> outdir_exists s' = outdir_exists s
           \<and> written s' = written s
           \<and> length (executed s') = length (executed s) + length js
           \<and> (js = [] \<longrightarrow> prof s' = prof s)"
  using room total
proof (induction js arbitrary: s)
  case Nil
  then show ?case by simp
next
  case (Cons j js)
  from Cons.prems(1) have "current_line s < length (template s)" by simp
  from lm_trial_no_crash[OF cfg this Cons.prems(2), of outdir j]
  obtain s1 where t: "lm_trial w sec outdir total_lines j s = Next s1"
    and k: "template s1 = template s" "current_line s1 = Suc (current_line s)"
      "loops s1 = loops s" "outdir_exists s1 = outdir_exists s" "written s1 = written s"
      "length (executed s1) = Suc (length (executed s))"
    by blast
  from k Cons.prems have "current_line s1 + length js \<le> length (template s1)"
    and "total_lines = length (template s1)"
    by simp_all
  from Cons.IH[OF this] t k show ?case by auto
qed

text \<open>
  The line half of claim C6: when no trial is judged crashed (and every configuration
  read has intervals other than zero and a \<^verbatim>\<open>lines-percent\<close> that is not negative,
  and the output directory exists), the line minimizer runs one trial per line, ends
  after exactly one outer loop with the Line Buffer unchanged, and writes it once.
\<close>

theorem lm_no_crash_one_loop:
  assumes cfg: "\<forall>it. \<exists>p. read_configuration_line (has_pykd w) (cfg_at w it) sec = Inr p
                  \<and> pre_iterations p \<noteq> 0 \<and> post_iterations p \<noteq> 0
                  \<and> 0 \<le> lines_percent p
                  \<and> (\<forall>cmd buf. \<not> lm_crashed w p it (execute_command w p it cmd buf))"
    and out: "outdir_exists s"
  shows "\<exists>s'. lm_do_try (Suc fuel) w sec outdir start_at s = Break s'
           \<and> template s' = template s
           \<and> loops s' = 1
           \<and> minimized s'
           \<and> length (executed s') = length (executed s) + length (template s)
           \<and> written s' = written s @
                [(path_join outdir
                    (sha1_hexdigest w (concat (template s)) @ extension (prof s')),
                  concat (template s))]"
proof -
  let ?n = "length (template s)"
  let ?s0 = "s\<lparr>current_line := 0, iteration := 0, loops := 0, minimized := False,
                current_line := 0\<rparr>"
  have "current_line ?s0 + length [0..<?n] \<le> length (template ?s0)" by simp
  moreover have "?n = length (template ?s0)" by simp
  ultimately obtain s1 where
    p: "lm_pass w sec outdir ?n [0..<?n] ?s0 = Next s1"
    and k: "template s1 = template ?s0" "loops s1 = loops ?s0"
      "outdir_exists s1 = outdir_exists ?s0" "written s1 = written ?s0"
      "length (executed s1) = length (executed ?s0) + length [0..<?n]"
    using lm_pass_no_crash[OF cfg, of ?s0 "[0..<?n]" ?n outdir] by blast
  from p k out
  have "lm_do_try (Suc fuel) w sec outdir start_at s
          = lm_finish w outdir (s1\<lparr>loops := Suc (loops s1)\<rparr>)"
    by (simp add: lm_do_try_def Let_def)
  with k out show ?thesis by (simp add: lm_finish_def)
qed

lemma crash_path_target: "crash_path target_line_profile = None"
  by (simp add: target_line_profile_def line_profile.defs profile.defs)

theorem lm_no_crash_one_loop_witness:
  "(case lm_do_try 1 (exit_world (\<lambda>c. Some 0) (target_cfg [])) ''target'' ''out'' 0
           ((init target_line_profile True)
              \<lparr>template := [[CHR ''a'', CHR 0x0A], [CHR ''b'', CHR 0x0A]]\<rparr>) of
      Break s' \<Rightarrow> template s' = [[CHR ''a'', CHR 0x0A], [CHR ''b'', CHR 0x0A]]
                 \<and> loops s' = 1 \<and> length (executed s') = 2
                 \<and> map snd (written s') = [[CHR ''a'', CHR 0x0A, CHR ''b'', CHR 0x0A]]
    | Next s' \<Rightarrow> False
    | Raise e s' \<Rightarrow> False)"
proof -
  let ?w = "exit_world (\<lambda>c. Some 0) (target_cfg [])"
  let ?s = "(init target_line_profile True)
              \<lparr>template := [[CHR ''a'', CHR 0x0A], [CHR ''b'', CHR 0x0A]]\<rparr>"
  have run: "execute_command ?w target_line_profile it cmd buf = Some 0" for it cmd buf
    by (simp add: execute_command_def exit_world_def target_line_profile_fields)
  have nocrash: "\<not> lm_crashed ?w target_line_profile it (Some 0)" for it
    by (simp add: lm_crashed_def in_return_signals_def is_signal_def crash_file_exists_def
        exit_world_def sample_signals_def target_line_profile_fields crash_path_target)
  have cfg: "\<forall>it. \<exists>p. read_configuration_line (has_pykd ?w) (cfg_at ?w it) ''target'' = Inr p
                  \<and> pre_iterations p \<noteq> 0 \<and> post_iterations p \<noteq> 0
                  \<and> 0 \<le> lines_percent p
                  \<and> (\<forall>cmd buf. \<not> lm_crashed ?w p it (execute_command ?w p it cmd buf))"
  proof
    fix it
    have "read_configuration_line (has_pykd ?w) (cfg_at ?w it) ''target'' = Inr target_line_profile"
      by (simp add: exit_world_def read_target_cfg_line)
    then show "\<exists>p. read_configuration_line (has_pykd ?w) (cfg_at ?w it) ''target'' = Inr p
                  \<and> pre_iterations p \<noteq> 0 \<and> post_iterations p \<noteq> 0
                  \<and> 0 \<le> lines_percent p
                  \<and> (\<forall>cmd buf. \<not> lm_crashed ?w p it (execute_command ?w p it cmd buf))"
      by (simp add: target_line_profile_fields run nocrash)
  qed
  have out: "outdir_exists ?s" by (simp add: init_def)
  from lm_no_crash_one_loop[OF cfg out, of 0 "''out''" 0]
  obtain s' where r: "lm_do_try (Suc 0) ?w ''target'' ''out'' 0 ?s = Break s'"
    and t: "template s' = template ?s" and l: "loops s' = 1"
    and e: "length (executed s') = length (executed ?s) + length (template ?s)"
    and f: "written s' = written ?s @
                [(path_join ''out''
                    (sha1_hexdigest ?w (concat (template ?s)) @ extension (prof s')),
                  concat (template ?s))]"
    by blast
  from r have r': "lm_do_try 1 ?w ''target'' ''out'' 0 ?s = Break s'" by simp
  from e have e': "length (executed s') = 2" by (simp add: init_def)
  from f have f': "map snd (written s') = [[CHR ''a'', CHR 0x0A, CHR ''b'', CHR 0x0A]]"
    by (simp add: init_def)
  show ?thesis unfolding r' using t l e' f' by simp
qed

subsection \<open>Resumption in the byte-diff minimizer\<close>

lemma gm_trial_executed:
  assumes "\<forall>e \<in> set (executed s). e \<in> E \<or> start_at \<le> int (fst e)"
  shows "\<forall>e \<in> set (executed (flow_state (gm_trial w outdir start_at pos s))).
           e \<in> E \<or> start_at \<le> int (fst e)"
  using assms
  by (auto simp: gm_trial_def Let_def split: option.splits sum.splits)

lemma gm_pass_executed:
  assumes "\<forall>e \<in> set (executed s). e \<in> E \<or> start_at \<le> int (fst e)"
  shows "\<forall>e \<in> set (executed (flow_state (gm_pass w outdir start_at ps s))).
           e \<in> E \<or> start_at \<le> int (fst e)"
  using assms
proof (induction ps arbitrary: s)
  case Nil
  then show ?case by simp
next
  case (Cons pos ps)
  from gm_trial_executed[OF Cons.prems, of w outdir pos]
  have f: "\<forall>e \<in> set (executed (flow_state (gm_trial w outdir start_at pos s))).
             e \<in> E \<or> start_at \<le> int (fst e)" .
  show ?case
  proof (cases "gm_trial w outdir start_at pos s")
    case (Next s')
    with f Cons.IH[of s'] show ?thesis by simp
  next
    case (Break s')
    with f show ?thesis by simp
  next
    case (Raise e s')
    with f show ?thesis by simp
  qed
qed

lemma gm_pop_executed: "executed (flow_state (gm_pop s)) = executed s"
  by (simp add: gm_pop_def Let_def split: option.splits)

lemma gm_round_executed:
  assumes "\<forall>e \<in> set (executed s). e \<in> E \<or> start_at \<le> int (fst e)"
  shows "\<forall>e \<in> set (executed (flow_state (gm_round w outdir start_at s))).
           e \<in> E \<or> start_at \<le> int (fst e)"
proof -
  from gm_pass_executed[OF assms, of w outdir "diff s"]
  have f: "\<forall>e \<in> set (executed (flow_state (gm_pass w outdir start_at (diff s) s))).
             e \<in> E \<or> start_at \<le> int (fst e)" .
  show ?thesis
  proof (cases "gm_pass w outdir start_at (diff s) s")
    case (Next s1)
    with f show ?thesis by (simp add: gm_round_def gm_pop_executed)
  next
    case (Break s1)
    with f show ?thesis by (simp add: gm_round_def)
  next
    case (Raise e s1)
    with f show ?thesis by (simp add: gm_round_def)
  qed
qed

lemma gm_rounds_executed:
  assumes "\<forall>e \<in> set (executed s). e \<in> E \<or> start_at \<le> int (fst e)"
  shows "\<forall>e \<in> set (executed (flow_state (gm_rounds w outdir start_at n s))).
           e \<in> E \<or> start_at \<le> int (fst e)"
  using assms
proof (induction n arbitrary: s)
  case 0
  then show ?case by simp
next
  case (Suc n)
  from gm_round_executed[OF Suc.prems, of w outdir]
  have f: "\<forall>e \<in> set (executed (flow_state (gm_round w outdir start_at s))).
             e \<in> E \<or> start_at \<le> int (fst e)" .
  show ?case
  proof (cases "gm_round w outdir start_at s")
    case (Next s1)
    with f Suc.IH[of s1] show ?thesis by simp
  next
    case (Break s1)
    with f show ?thesis by simp
  next
    case (Raise e s1)
    with f show ?thesis by simp
  qed
qed

text \<open>
  The byte-diff half of claim C3: a trial whose iteration index is below the starting
  iteration only advances the counter, and no subject run of \<^verbatim>\<open>do_try\<close> has an
  index below the starting iteration.
\<close>

theorem gm_skips_below_start_at:
  "(int (iteration s) < start_at \<longrightarrow>
      gm_trial w outdir start_at pos s = Next (s\<lparr>iteration := Suc (iteration s)\<rparr>))
   \<and> (\<forall>e \<in> set (executed (flow_state (gm_do_try w outdir start_at s))).
        e \<in> set (executed s) \<or> start_at \<le> int (fst e))"
proof -
  have "\<forall>e \<in> set (executed (s\<lparr>minimized := False, iteration := 0\<rparr>)).
          e \<in> set (executed s) \<or> start_at \<le> int (fst e)"
    by simp
  from gm_rounds_executed[OF this, of w outdir "length (diff s)"]
  show ?thesis by (simp add: gm_do_try_def gm_trial_def)
qed

theorem gm_skips_below_start_at_witness:
  "gm_trial (exit_world (\<lambda>c. Some 139) (target_cfg [])) ''out'' 1 0
       ((init target_profile True)
          \<lparr>diff := [0, 1], template := ''AA'',
             crash := [0 \<mapsto> CHR ''B'', 1 \<mapsto> CHR ''C'']\<rparr>)
     = Next ((init target_profile True)
          \<lparr>diff := [0, 1], template := ''AA'',
             crash := [0 \<mapsto> CHR ''B'', 1 \<mapsto> CHR ''C''], iteration := Suc 0\<rparr>)
   \<and> executed (flow_state (gm_do_try (exit_world (\<lambda>c. Some 139) (target_cfg [])) ''out'' 1
       ((init target_profile True)
          \<lparr>diff := [0, 1], template := ''AA'',
             crash := [0 \<mapsto> CHR ''B'', 1 \<mapsto> CHR ''C'']\<rparr>)))
     = [(1, ''/usr/bin/target /tmp/tmpfile'', ''AC'')]"
proof -
  let ?w = "exit_world (\<lambda>c. Some 139) (target_cfg [])"
  let ?s = "(init target_profile True)
          \<lparr>diff := [0, 1], template := ''AA'',
             crash := [0 \<mapsto> CHR ''B'', 1 \<mapsto> CHR ''C'']\<rparr>"
  have lt: "int (iteration ?s) < 1" by (simp add: init_def)
  from gm_skips_below_start_at[of ?s 1 ?w "''out''" 0] lt
  have "gm_trial ?w ''out'' 1 0 ?s = Next (?s\<lparr>iteration := Suc (iteration ?s)\<rparr>)"
    by blast
  then have a: "gm_trial ?w ''out'' 1 0 ?s = Next (?s\<lparr>iteration := Suc 0\<rparr>)"
    by (simp add: init_def)
  have b: "executed (flow_state (gm_do_try ?w ''out'' 1 ?s))
     = [(1, ''/usr/bin/target /tmp/tmpfile'', ''AC'')]"
    by code_simp
  from a b show ?thesis by (simp del: One_nat_def)
qed

end
